theory Spec2Isabelle
  imports Complex_Main "HOL-Library.Sublist" "HOL-Library.Log_Nat"
begin

section \<open>Conventions of the embedding\<close>

text \<open>
  The two components of the repository are embedded shallowly: the balance fetcher
  (\<^verbatim>\<open>src/balance_fetcher.py\<close>) and the portfolio aggregator
  (\<^verbatim>\<open>src/portfolio_aggregator.py\<close>).

  \<^item> A Python dict with optional keys is a record of \<open>option\<close> fields; \<open>None\<close> stands
    for an absent key. The fetcher stores Python's \<open>None\<close> under one key only, the
    \<open>contract_address\<close> of a native record, which the code reads through
    \<open>or "native"\<close>, as it reads an absent key.
  \<^item> A Python \<open>str\<close> is the list of its Unicode code points (\<open>pystr\<close>), so that
    \<open>len\<close> counts code points and \<open>strip\<close> removes every Unicode whitespace character.
  \<^item> A Python float is the rational number it denotes, and every arithmetic operation of
    the aggregator rounds its exact result to the nearest double (\<open>fl\<close>, ties to even,
    with gradual underflow). Infinities and NaN are outside the model: it follows the code
    as long as no result exceeds the largest double.
  \<^item> The balance of a fetched record is the exact quotient of the raw amount by the power
    of ten, which the code computes as a \<open>Decimal\<close> of 28 digits and converts to the
    nearest double. The aggregator takes the balances of its input as they are given.
  \<^item> An exception is a value of type \<open>exn\<close>; a computation that may raise returns
    \<open>exn + 'a\<close> with \<open>Inl\<close> the raised exception.
  \<^item> The chain RPC and the price oracle are parameters (records of functions).
\<close>

section \<open>Strings\<close>

type_synonym pystr = "nat list"

text \<open>A literal of ASCII characters.\<close>

definition ascii :: "string \<Rightarrow> pystr" where
  "ascii s = map of_char s"

text \<open>
  The code points that \<open>str.strip()\<close> removes (those for which \<open>str.isspace()\<close> holds):
  U+0009 to U+000D, U+001C to U+0020, U+0085, U+00A0, U+1680, U+2000 to U+200A, U+2028,
  U+2029, U+202F, U+205F and U+3000.
\<close>

definition is_space :: "nat \<Rightarrow> bool" where
  "is_space c = ((0x09 \<le> c \<and> c \<le> 0x0D) \<or> (0x1C \<le> c \<and> c \<le> 0x20) \<or> c = 0x85 \<or> c = 0xA0
     \<or> c = 0x1680 \<or> (0x2000 \<le> c \<and> c \<le> 0x200A) \<or> c = 0x2028 \<or> c = 0x2029
     \<or> c = 0x202F \<or> c = 0x205F \<or> c = 0x3000)"

definition strip :: "pystr \<Rightarrow> pystr" where
  "strip s = rev (dropWhile is_space (rev (dropWhile is_space s)))"

definition startswith :: "pystr \<Rightarrow> pystr \<Rightarrow> bool" where
  "startswith s p = (take (length p) s = p)"

text \<open>
  \<open>str.lower()\<close> on the letters A to Z. It is applied to token addresses only; one that
  reaches a populated record was accepted by the node as a hexadecimal address.
\<close>

definition char_lower :: "nat \<Rightarrow> nat" where
  "char_lower c = (if 65 \<le> c \<and> c \<le> 90 then c + 32 else c)"

definition lower :: "pystr \<Rightarrow> pystr" where
  "lower s = map char_lower s"

text \<open>Decimal rendering of numbers inside f-strings, and reading it back.\<close>

function str_nat :: "nat \<Rightarrow> pystr" where
  "str_nat n = (if n < 10 then [48 + n] else str_nat (n div 10) @ [48 + n mod 10])"
  by pat_completeness auto
termination
  by (relation "measure (\<lambda>n. n)") auto

declare str_nat.simps [simp del]

definition str_int :: "int \<Rightarrow> pystr" where
  "str_int i = (if i < 0 then ascii ''-'' @ str_nat (nat (- i)) else str_nat (nat i))"

definition nat_of_digits :: "pystr \<Rightarrow> nat" where
  "nat_of_digits ds = foldl (\<lambda>a c. 10 * a + (c - 48)) 0 ds"

text \<open>Python truthiness of an optional string: absent, \<open>None\<close> and \<open>""\<close> are false.\<close>

definition truthy :: "pystr option \<Rightarrow> bool" where
  "truthy s = (case s of None \<Rightarrow> False | Some t \<Rightarrow> t \<noteq> [])"

section \<open>Exceptions\<close>

datatype exn = ValueError pystr | KeyError pystr | RpcError pystr

text \<open>\<open>str(e)\<close>: the message; a \<open>KeyError\<close> prints the quoted key.\<close>

fun exn_str :: "exn \<Rightarrow> pystr" where
  "exn_str (ValueError m) = m"
| "exn_str (KeyError k) = [39] @ k @ [39]"
| "exn_str (RpcError m) = m"

text \<open>\<open>try: body except Exception as e: handler(e)\<close>\<close>

definition try_except :: "exn + 'a \<Rightarrow> (exn \<Rightarrow> exn + 'a) \<Rightarrow> exn + 'a" where
  "try_except body handler = (case body of Inl e \<Rightarrow> handler e | Inr v \<Rightarrow> Inr v)"

section \<open>Double-precision arithmetic\<close>

text \<open>
  \<open>bin_exponent x\<close> is the integer \<open>k\<close> with \<open>2 ^ k \<le> \<bar>x\<bar> < 2 ^ (k + 1)\<close>, for \<open>x\<close> other
  than zero, found from the bit lengths of numerator and denominator. \<open>fl x\<close> is the
  double nearest to \<open>x\<close>: 53 significant bits, the exponent of the last bit not below
  \<open>-1074\<close>, ties to the even significand.
\<close>

definition round_half_even :: "rat \<Rightarrow> int" where
  "round_half_even x =
     (let f = \<lfloor>x\<rfloor>; d = x - of_int f in
      if d < 1 / 2 then f else if 1 / 2 < d then f + 1 else if even f then f else f + 1)"

definition bin_exponent :: "rat \<Rightarrow> int" where
  "bin_exponent x =
     (case quotient_of \<bar>x\<bar> of (p, q) \<Rightarrow>
        (let k = bitlen p - bitlen q in if 2 powi k \<le> \<bar>x\<bar> then k else k - 1))"

definition fl :: "rat \<Rightarrow> rat" where
  "fl x = (if x = 0 then 0
           else (let e = max (bin_exponent x - 52) (- 1074)
                 in of_int (round_half_even (x / 2 powi e)) * 2 powi e))"

text \<open>
  The builtin \<open>sum\<close> over floats: from \<open>0\<close>, left to right, each addition rounded (as
  CPython does up to version 3.11; later versions carry a compensation term).
\<close>

definition py_sum :: "rat list \<Rightarrow> rat" where
  "py_sum vs = foldl (\<lambda>acc v. fl (acc + v)) 0 vs"

text \<open>
  \<open>round(x, 2)\<close>: the exact value of \<open>x\<close> rounded to the nearest hundredth, ties to even,
  and the double nearest to that decimal.
\<close>

definition py_round2 :: "rat \<Rightarrow> rat" where
  "py_round2 x = fl (of_int (round_half_even (x * 100)) / 100)"

section \<open>Balance records\<close>

record balance_rec =
  chain_id :: "int option"
  chain_name :: "pystr option"
  token_type :: "pystr option"
  contract_address :: "pystr option"
  symbol :: "pystr option"
  name :: "pystr option"
  balance :: "rat option"
  balance_wei :: "nat option"
  balance_raw :: "nat option"
  decimals :: "nat option"
  error :: "pystr option"

definition empty_rec :: balance_rec where
  "empty_rec = \<lparr>chain_id = None, chain_name = None, token_type = None, contract_address = None,
     symbol = None, name = None, balance = None, balance_wei = None, balance_raw = None,
     decimals = None, error = None\<rparr>"

text \<open>\<open>b.get("error")\<close> is truthy.\<close>

definition has_error :: "balance_rec \<Rightarrow> bool" where
  "has_error b = truthy (error b)"

section \<open>Balance fetcher\<close>

record chain_info =
  ci_name :: pystr
  ci_symbol :: pystr
  ci_decimals :: nat

definition CHAIN_CONFIG :: "int \<Rightarrow> chain_info option" where
  "CHAIN_CONFIG = map_of
     [(1, \<lparr>ci_name = ascii ''Ethereum'', ci_symbol = ascii ''ETH'', ci_decimals = 18\<rparr>),
      (56, \<lparr>ci_name = ascii ''BNB Chain'', ci_symbol = ascii ''BNB'', ci_decimals = 18\<rparr>),
      (137, \<lparr>ci_name = ascii ''Polygon'', ci_symbol = ascii ''MATIC'', ci_decimals = 18\<rparr>),
      (42161, \<lparr>ci_name = ascii ''Arbitrum'', ci_symbol = ascii ''ETH'', ci_decimals = 18\<rparr>),
      (10, \<lparr>ci_name = ascii ''Optimism'', ci_symbol = ascii ''ETH'', ci_decimals = 18\<rparr>),
      (8453, \<lparr>ci_name = ascii ''Base'', ci_symbol = ascii ''ETH'', ci_decimals = 18\<rparr>),
      (43114, \<lparr>ci_name = ascii ''Avalanche'', ci_symbol = ascii ''AVAX'', ci_decimals = 18\<rparr>)]"

definition config_name :: "int \<Rightarrow> pystr" where
  "config_name c = (case CHAIN_CONFIG c of None \<Rightarrow> ascii ''Chain '' @ str_int c | Some i \<Rightarrow> ci_name i)"

definition config_symbol :: "int \<Rightarrow> pystr" where
  "config_symbol c = (case CHAIN_CONFIG c of None \<Rightarrow> ascii ''UNKNOWN'' | Some i \<Rightarrow> ci_symbol i)"

definition config_decimals :: "int \<Rightarrow> nat" where
  "config_decimals c = (case CHAIN_CONFIG c of None \<Rightarrow> 18 | Some i \<Rightarrow> ci_decimals i)"

text \<open>
  The chain RPC capability. \<open>web3_init url\<close> tells whether constructing the handle for
  \<open>url\<close> succeeds; the other fields are the outcomes of the calls made through the handle
  of a chain: a result, or the exception (an instance of \<open>Exception\<close>) the call raises.
\<close>

record rpc_env =
  rpc_urls :: "int \<Rightarrow> pystr option"
  web3_init :: "pystr \<Rightarrow> bool"
  eth_get_balance :: "int \<Rightarrow> pystr \<Rightarrow> exn + nat"
  eth_contract :: "int \<Rightarrow> pystr \<Rightarrow> exn option"
  call_balanceOf :: "int \<Rightarrow> pystr \<Rightarrow> pystr \<Rightarrow> exn + nat"
  call_decimals :: "int \<Rightarrow> pystr \<Rightarrow> exn + nat"
  call_symbol :: "int \<Rightarrow> pystr \<Rightarrow> exn + pystr"
  call_name :: "int \<Rightarrow> pystr \<Rightarrow> exn + pystr"

text \<open>
  \<open>_get_w3\<close>: the state is the set of chain identifiers with a cached handle
  (\<open>w3_instances\<close>); the result tells whether a handle was obtained.
\<close>

definition get_w3 :: "rpc_env \<Rightarrow> int set \<Rightarrow> int \<Rightarrow> bool \<times> int set" where
  "get_w3 env cache c =
     (if c \<in> cache then (True, cache)
      else case rpc_urls env c of
        None \<Rightarrow> (False, cache)
      | Some url \<Rightarrow>
          if url = [] then (False, cache)
          else if web3_init env url then (True, insert c cache)
          else (False, cache))"

definition normalize_address :: "pystr \<Rightarrow> exn + pystr" where
  "normalize_address address =
     (let a = strip address in
      if \<not> startswith a (ascii ''0x'') \<or> length a \<noteq> 42
      then Inl (ValueError (ascii ''Invalid address: '' @ a))
      else Inr a)"

definition not_supported_rec :: "int \<Rightarrow> balance_rec" where
  "not_supported_rec c = empty_rec\<lparr>chain_id := Some c,
     error := Some (ascii ''Chain '' @ str_int c @ ascii '' not supported or failed to initialize'')\<rparr>"

text \<open>The body of the \<open>try\<close> of \<open>get_native_balance\<close>, after the handle was obtained.\<close>

definition native_body :: "rpc_env \<Rightarrow> pystr \<Rightarrow> int \<Rightarrow> exn + balance_rec" where
  "native_body env wallet_address c =
     (case normalize_address wallet_address of
        Inl e \<Rightarrow> Inl e
      | Inr address \<Rightarrow>
          (case eth_get_balance env c address of
             Inl e \<Rightarrow> Inl e
           | Inr wei \<Rightarrow>
               Inr \<lparr>chain_id = Some c, chain_name = Some (config_name c),
                 token_type = Some (ascii ''native''), contract_address = None,
                 symbol = Some (config_symbol c), name = None,
                 balance = Some (of_nat wei / 10 ^ config_decimals c),
                 balance_wei = Some wei, balance_raw = None,
                 decimals = Some (config_decimals c), error = None\<rparr>))"

definition get_native_balance ::
  "rpc_env \<Rightarrow> int set \<Rightarrow> pystr \<Rightarrow> int \<Rightarrow> (exn + balance_rec) \<times> int set" where
  "get_native_balance env cache wallet_address c =
     (case get_w3 env cache c of (w3, cache') \<Rightarrow>
        (try_except
           (if \<not> w3 then Inr (not_supported_rec c) else native_body env wallet_address c)
           (\<lambda>e. Inr (empty_rec\<lparr>chain_id := Some c, error := Some (exn_str e)\<rparr>)),
         cache'))"

text \<open>The three metadata queries, each with its own bare \<open>except\<close>.\<close>

definition or_default :: "exn + 'a \<Rightarrow> 'a \<Rightarrow> 'a" where
  "or_default r d = (case r of Inl e \<Rightarrow> d | Inr v \<Rightarrow> v)"

definition token_body :: "rpc_env \<Rightarrow> pystr \<Rightarrow> pystr \<Rightarrow> int \<Rightarrow> exn + balance_rec" where
  "token_body env wallet_address token_address c =
     (case normalize_address wallet_address of
        Inl e \<Rightarrow> Inl e
      | Inr wallet \<Rightarrow>
     (case normalize_address token_address of
        Inl e \<Rightarrow> Inl e
      | Inr token \<Rightarrow>
     (case eth_contract env c token of
        Some e \<Rightarrow> Inl e
      | None \<Rightarrow>
     (case call_balanceOf env c token wallet of
        Inl e \<Rightarrow> Inl e
      | Inr raw \<Rightarrow>
          (let decs = or_default (call_decimals env c token) 18;
               symb = or_default (call_symbol env c token) (ascii ''UNKNOWN'');
               nm = or_default (call_name env c token) (ascii ''Unknown Token'')
           in Inr \<lparr>chain_id = Some c, chain_name = Some (config_name c),
                 token_type = Some (ascii ''erc20''), contract_address = Some (lower token_address),
                 symbol = Some symb, name = Some nm,
                 balance = Some (of_nat raw / 10 ^ decs),
                 balance_wei = None, balance_raw = Some raw,
                 decimals = Some decs, error = None\<rparr>)))))"

definition get_token_balance ::
  "rpc_env \<Rightarrow> int set \<Rightarrow> pystr \<Rightarrow> pystr \<Rightarrow> int \<Rightarrow> (exn + balance_rec) \<times> int set" where
  "get_token_balance env cache wallet_address token_address c =
     (case get_w3 env cache c of (w3, cache') \<Rightarrow>
        (try_except
           (if \<not> w3 then Inr (not_supported_rec c)
            else token_body env wallet_address token_address c)
           (\<lambda>e. Inr (empty_rec\<lparr>chain_id := Some c,
                   contract_address := Some (lower token_address),
                   error := Some (exn_str e)\<rparr>)),
         cache'))"

text \<open>\<open>token_balance.get("balance", 0) > 0\<close>\<close>

definition positive_balance :: "balance_rec \<Rightarrow> bool" where
  "positive_balance b = (case balance b of None \<Rightarrow> False | Some x \<Rightarrow> x > 0)"

text \<open>
  The loop of \<open>get_wallet_tokens\<close> over the token addresses; \<open>balances\<close> is the list
  built so far. An exception raised by a resolution would leave the loop.
\<close>

fun wallet_tokens_loop ::
  "rpc_env \<Rightarrow> pystr \<Rightarrow> int \<Rightarrow> pystr list \<Rightarrow> balance_rec list \<Rightarrow> int set \<Rightarrow>
     (exn + balance_rec list) \<times> int set" where
  "wallet_tokens_loop env wallet_address c [] balances cache = (Inr balances, cache)"
| "wallet_tokens_loop env wallet_address c (token_address # rest) balances cache =
     (case get_token_balance env cache wallet_address token_address c of
        (Inl e, cache') \<Rightarrow> (Inl e, cache')
      | (Inr token_balance, cache') \<Rightarrow>
          wallet_tokens_loop env wallet_address c rest
            (if \<not> has_error token_balance \<and> positive_balance token_balance
             then balances @ [token_balance] else balances)
            cache')"

definition get_wallet_tokens ::
  "rpc_env \<Rightarrow> int set \<Rightarrow> pystr \<Rightarrow> int \<Rightarrow> pystr list option \<Rightarrow>
     (exn + balance_rec list) \<times> int set" where
  "get_wallet_tokens env cache wallet_address c token_addresses =
     (case get_native_balance env cache wallet_address c of
        (Inl e, cache') \<Rightarrow> (Inl e, cache')
      | (Inr native_balance, cache') \<Rightarrow>
          (let balances = (if \<not> has_error native_balance then [native_balance] else [])
           in case token_addresses of
                None \<Rightarrow> (Inr balances, cache')
              | Some addrs \<Rightarrow> wallet_tokens_loop env wallet_address c addrs balances cache'))"

section \<open>Portfolio aggregator\<close>

record token_entry =
  te_symbol :: "pystr option"
  te_balance :: "rat option"
  te_value_usd :: rat

record chain_group =
  cg_chain_id :: int
  cg_chain_name :: pystr
  cg_value_usd :: rat
  cg_tokens :: "token_entry list"

record token_group =
  tg_symbol :: pystr
  tg_balance :: rat
  tg_value_usd :: rat
  tg_chains :: "pystr option list"

record portfolio_summary =
  wallet_address :: pystr
  total_value_usd :: rat
  chains_count :: nat
  tokens_count :: nat
  native_value_usd :: rat
  erc20_value_usd :: rat
  breakdown_by_chain :: "chain_group list"
  breakdown_by_token :: "token_group list"
  warnings :: "pystr list"
  timestamp :: pystr

text \<open>An enriched balance: a copy of the record with the two keys added.\<close>

record enriched = balance_rec +
  price_usd :: "rat option"
  value_usd :: rat

text \<open>
  The price oracle: the outcome of the POST to \<open>url\<close> for a token address and a chain
  identifier is an exception (transport error, timeout, undecodable body) or a response
  with its status and the \<open>price_usd\<close> entry of its JSON body.
\<close>

datatype oracle_reply = Post_raised | Response nat "rat option"

record price_env =
  price_oracle_url :: "pystr option"
  oracle_post :: "pystr \<Rightarrow> pystr \<Rightarrow> int option \<Rightarrow> oracle_reply"

definition fallback_prices :: "pystr \<Rightarrow> rat option" where
  "fallback_prices = map_of
     [(ascii ''ETH'', 3000), (ascii ''BNB'', 600), (ascii ''MATIC'', 1), (ascii ''AVAX'', 40), (ascii ''USDC'', 1),
      (ascii ''USDT'', 1), (ascii ''DAI'', 1), (ascii ''WETH'', 3000), (ascii ''WBNB'', 600), (ascii ''WMATIC'', 1)]"

definition get_fallback_price :: "pystr option \<Rightarrow> rat option" where
  "get_fallback_price symb = (case symb of None \<Rightarrow> None | Some s \<Rightarrow> fallback_prices s)"

definition get_token_price :: "price_env \<Rightarrow> pystr \<Rightarrow> int option \<Rightarrow> pystr option \<Rightarrow> rat option" where
  "get_token_price env token_address cid symb =
     (case price_oracle_url env of
        None \<Rightarrow> get_fallback_price symb
      | Some url \<Rightarrow>
          if url \<noteq> [] \<and> token_address \<noteq> ascii ''native'' then
            (case oracle_post env url token_address cid of
               Post_raised \<Rightarrow> get_fallback_price symb
             | Response status price \<Rightarrow>
                 if status = 200 then price else get_fallback_price symb)
          else get_fallback_price symb)"

text \<open>\<open>balance.get("contract_address") or "native"\<close>\<close>

definition address_or_native :: "balance_rec \<Rightarrow> pystr" where
  "address_or_native b =
     (case contract_address b of None \<Rightarrow> ascii ''native'' | Some a \<Rightarrow> if a = [] then ascii ''native'' else a)"

text \<open>\<open>balance.get("balance")\<close> is truthy: present and not zero.\<close>

definition balance_truthy :: "balance_rec \<Rightarrow> bool" where
  "balance_truthy b = (case balance b of None \<Rightarrow> False | Some x \<Rightarrow> x \<noteq> 0)"

text \<open>\<open>balance.get("balance", 0)\<close>\<close>

definition balance_or_zero :: "'a balance_rec_scheme \<Rightarrow> rat" where
  "balance_or_zero b = (case balance b of None \<Rightarrow> 0 | Some x \<Rightarrow> x)"

definition enrich_one :: "price_env \<Rightarrow> balance_rec \<Rightarrow> enriched" where
  "enrich_one env b =
     (case get_token_price env (address_or_native b) (chain_id b) (symbol b) of
        None \<Rightarrow> balance_rec.extend b (enriched.fields None 0)
      | Some price \<Rightarrow>
          if balance_truthy b
          then balance_rec.extend b
                 (enriched.fields (Some price) (fl (price * balance_or_zero b)))
          else balance_rec.extend b (enriched.fields None 0))"

definition enrich_with_prices :: "price_env \<Rightarrow> balance_rec list \<Rightarrow> enriched list" where
  "enrich_with_prices env balances = map (enrich_one env) balances"

text \<open>
  A \<open>defaultdict\<close> in insertion order: \<open>d[k] = f (d[k])\<close>, where a missing key is first
  given the default and goes to the end.
\<close>

fun dd_update :: "'k \<Rightarrow> ('v \<Rightarrow> 'v) \<Rightarrow> 'v \<Rightarrow> ('k \<times> 'v) list \<Rightarrow> ('k \<times> 'v) list" where
  "dd_update k f d [] = [(k, f d)]"
| "dd_update k f d ((k', v) # kvs) =
     (if k' = k then (k', f v) # kvs else (k', v) # dd_update k f d kvs)"

text \<open>
  The default of \<open>by_chain\<close> has no \<open>chain_id\<close> and no \<open>chain_name\<close> yet; the loop body
  sets both on every visit, so the two fields of the default below are never read.
\<close>

definition chain_default :: chain_group where
  "chain_default = \<lparr>cg_chain_id = 0, cg_chain_name = [], cg_value_usd = 0, cg_tokens = []\<rparr>"

definition chain_step :: "int \<Rightarrow> enriched \<Rightarrow> chain_group \<Rightarrow> chain_group" where
  "chain_step c b g =
     \<lparr>cg_chain_id = c,
      cg_chain_name = (case chain_name b of None \<Rightarrow> ascii ''Chain '' @ str_int c | Some n \<Rightarrow> n),
      cg_value_usd = fl (cg_value_usd g + value_usd b),
      cg_tokens = cg_tokens g @
        [\<lparr>te_symbol = symbol b, te_balance = balance b, te_value_usd = value_usd b\<rparr>]\<rparr>"

text \<open>The first loop; \<open>balance["chain_id"]\<close> raises \<open>KeyError\<close> when the key is absent.\<close>

fun group_by_chain :: "enriched list \<Rightarrow> (int \<times> chain_group) list \<Rightarrow> exn + (int \<times> chain_group) list" where
  "group_by_chain [] by_chain = Inr by_chain"
| "group_by_chain (b # bs) by_chain =
     (case chain_id b of
        None \<Rightarrow> Inl (KeyError (ascii ''chain_id''))
      | Some c \<Rightarrow> group_by_chain bs (dd_update c (chain_step c b) chain_default by_chain))"

definition token_default :: token_group where
  "token_default = \<lparr>tg_symbol = [], tg_balance = 0, tg_value_usd = 0, tg_chains = []\<rparr>"

definition token_step :: "pystr \<Rightarrow> enriched \<Rightarrow> token_group \<Rightarrow> token_group" where
  "token_step s b g =
     \<lparr>tg_symbol = s,
      tg_balance = fl (tg_balance g + balance_or_zero b),
      tg_value_usd = fl (tg_value_usd g + value_usd b),
      tg_chains = tg_chains g @ [chain_name b]\<rparr>"

text \<open>\<open>balance.get("symbol", "UNKNOWN")\<close>\<close>

definition symbol_key :: "enriched \<Rightarrow> pystr" where
  "symbol_key b = (case symbol b of None \<Rightarrow> ascii ''UNKNOWN'' | Some s \<Rightarrow> s)"

fun group_by_token :: "enriched list \<Rightarrow> (pystr \<times> token_group) list \<Rightarrow> (pystr \<times> token_group) list" where
  "group_by_token [] by_token = by_token"
| "group_by_token (b # bs) by_token =
     group_by_token bs (dd_update (symbol_key b) (token_step (symbol_key b) b) token_default by_token)"

text \<open>
  \<open>sorted(xs, key=..., reverse=True)\<close>: a stable sort into descending order of the key,
  that is, a stable ascending sort on the negated key.
\<close>

definition sorted_reverse :: "('a \<Rightarrow> rat) \<Rightarrow> 'a list \<Rightarrow> 'a list" where
  "sorted_reverse key xs = sort_key (\<lambda>x. - key x) xs"

definition info_sign :: pystr where
  "info_sign = [0x2139, 0xFE0F]"

definition warning_sign :: pystr where
  "warning_sign = [0x26A0, 0xFE0F]"

definition no_entry_sign :: pystr where
  "no_entry_sign = [0x1F6AB]"

definition msg_missing_price :: "nat \<Rightarrow> pystr" where
  "msg_missing_price n =
     info_sign @ ascii '' '' @ str_nat n @ ascii '' token(s) missing price data - using fallback estimates''"

definition msg_low_value :: pystr where
  "msg_low_value = info_sign @ ascii '' Portfolio value below $1 USD''"

definition msg_concentrated :: pystr where
  "msg_concentrated = warning_sign @ ascii '' Portfolio highly concentrated in single asset''"

definition msg_no_valid :: pystr where
  "msg_no_valid = no_entry_sign @ ascii '' No valid balances found''"

definition msg_failed :: "nat \<Rightarrow> pystr" where
  "msg_failed n = info_sign @ ascii '' '' @ str_nat n @ ascii '' chain(s) failed to fetch''"

definition generate_warnings :: "enriched list \<Rightarrow> rat \<Rightarrow> pystr list" where
  "generate_warnings balances total_value =
     (let no_price_count = length (filter (\<lambda>b. price_usd b = None) balances);
          w1 = (if no_price_count > 0 then [msg_missing_price no_price_count] else []);
          w2 = (if total_value < 1 then w1 @ [msg_low_value] else w1)
      in case balances of
           [] \<Rightarrow> w2
         | b # bs \<Rightarrow>
             (let max_value = fold max (map value_usd bs) (value_usd b) in
              if total_value > 0 \<and> fl (max_value / total_value) > fl (9 / 10)
              then w2 @ [msg_concentrated] else w2))"

definition create_empty_portfolio :: "pystr \<Rightarrow> balance_rec list \<Rightarrow> portfolio_summary" where
  "create_empty_portfolio wallet balances =
     (let errors = filter truthy (map error balances);
          ws = [msg_no_valid] @ (if errors \<noteq> [] then [msg_failed (length errors)] else [])
      in \<lparr>wallet_address = wallet, total_value_usd = 0, chains_count = 0, tokens_count = 0,
           native_value_usd = 0, erc20_value_usd = 0, breakdown_by_chain = [],
           breakdown_by_token = [], warnings = ws, timestamp = []\<rparr>)"

text \<open>\<open>[b["chain_id"] for b in valid_balances]\<close>, raising on an absent key.\<close>

fun chain_ids :: "balance_rec list \<Rightarrow> exn + int list" where
  "chain_ids [] = Inr []"
| "chain_ids (b # bs) =
     (case chain_id b of
        None \<Rightarrow> Inl (KeyError (ascii ''chain_id''))
      | Some c \<Rightarrow> (case chain_ids bs of Inl e \<Rightarrow> Inl e | Inr cs \<Rightarrow> Inr (c # cs)))"

definition valid_balances :: "balance_rec list \<Rightarrow> balance_rec list" where
  "valid_balances balances = filter (\<lambda>b. \<not> has_error b) balances"

definition aggregate_portfolio :: "price_env \<Rightarrow> pystr \<Rightarrow> balance_rec list \<Rightarrow> exn + portfolio_summary" where
  "aggregate_portfolio env wallet balances =
     (let valid = valid_balances balances in
      if valid = [] then Inr (create_empty_portfolio wallet balances)
      else
        (let balances_with_prices = enrich_with_prices env valid;
             total_value = py_sum (map value_usd balances_with_prices);
             native_value = py_sum (map value_usd
               (filter (\<lambda>b. token_type b = Some (ascii ''native'')) balances_with_prices));
             erc20_value = py_sum (map value_usd
               (filter (\<lambda>b. token_type b = Some (ascii ''erc20'')) balances_with_prices))
         in case group_by_chain balances_with_prices [] of
              Inl e \<Rightarrow> Inl e
            | Inr by_chain \<Rightarrow>
                (let by_token = group_by_token balances_with_prices [];
                     ws = generate_warnings balances_with_prices total_value
                 in case chain_ids valid of
                      Inl e \<Rightarrow> Inl e
                    | Inr cs \<Rightarrow>
                        Inr \<lparr>wallet_address = wallet,
                             total_value_usd = py_round2 total_value,
                             chains_count = card (set cs),
                             tokens_count = length valid,
                             native_value_usd = py_round2 native_value,
                             erc20_value_usd = py_round2 erc20_value,
                             breakdown_by_chain = sorted_reverse cg_value_usd (map snd by_chain),
                             breakdown_by_token = sorted_reverse tg_value_usd (map snd by_token),
                             warnings = ws,
                             timestamp = []\<rparr>)))"

section \<open>Example inputs\<close>

text \<open>
  A node for chain 1 only: a wallet holding 5 wei, token contracts that answer
  \<open>decimals\<close> and \<open>name\<close> but revert on \<open>symbol\<close>, and one token of which the wallet
  holds nothing.
\<close>

definition example_wallet :: pystr where
  "example_wallet = ascii ''0xaaaaaaaaaaaaaaaaaaaaaaaaaaaaaaaaaaaaaaaa''"

definition example_token :: pystr where
  "example_token = ascii ''0xCCCCCCCCCCCCCCCCCCCCcccccccccccccccccccc''"

definition example_unheld_token :: pystr where
  "example_unheld_token = ascii ''0xdddddddddddddddddddddddddddddddddddddddd''"

definition example_rpc :: rpc_env where
  "example_rpc = \<lparr>rpc_urls = (\<lambda>c. if c = 1 then Some (ascii ''http://node'') else None),
     web3_init = (\<lambda>u. True),
     eth_get_balance = (\<lambda>c a. Inr 5),
     eth_contract = (\<lambda>c a. None),
     call_balanceOf = (\<lambda>c t w. if t = example_unheld_token then Inr 0 else Inr 2500000),
     call_decimals = (\<lambda>c t. Inr 6),
     call_symbol = (\<lambda>c t. Inl (RpcError (ascii ''execution reverted''))),
     call_name = (\<lambda>c t. Inr (ascii ''Coin''))\<rparr>"

text \<open>A node whose balance query for chain 1 fails.\<close>

definition failing_rpc :: rpc_env where
  "failing_rpc = example_rpc\<lparr>eth_get_balance := (\<lambda>c a. Inl (RpcError (ascii ''timeout''))),
     call_balanceOf := (\<lambda>c t w. Inl (RpcError (ascii ''timeout'')))\<rparr>"

text \<open>A node whose balance query fails with an exception of empty message.\<close>

definition silent_rpc :: rpc_env where
  "silent_rpc = example_rpc\<lparr>eth_get_balance := (\<lambda>c a. Inl (RpcError []))\<rparr>"

text \<open>An aggregator without a price oracle, and a few balance records.\<close>

definition no_oracle :: price_env where
  "no_oracle = \<lparr>price_oracle_url = None, oracle_post = (\<lambda>u a c. Post_raised)\<rparr>"

definition native_eth :: "rat \<Rightarrow> balance_rec" where
  "native_eth x = empty_rec\<lparr>chain_id := Some 1, chain_name := Some (ascii ''Ethereum''),
     token_type := Some (ascii ''native''), symbol := Some (ascii ''ETH''), balance := Some x,
     decimals := Some 18\<rparr>"

definition erc20_on :: "int \<Rightarrow> pystr \<Rightarrow> rat \<Rightarrow> balance_rec" where
  "erc20_on c s x = empty_rec\<lparr>chain_id := Some c, chain_name := Some (config_name c),
     token_type := Some (ascii ''erc20''), contract_address := Some example_unheld_token,
     symbol := Some s, balance := Some x, decimals := Some 18\<rparr>"

definition failed_chain :: "int \<Rightarrow> balance_rec" where
  "failed_chain c = empty_rec\<lparr>chain_id := Some c, error := Some (ascii ''timeout'')\<rparr>"

definition native_matic :: "rat \<Rightarrow> balance_rec" where
  "native_matic x = empty_rec\<lparr>chain_id := Some 137, chain_name := Some (ascii ''Polygon''),
     token_type := Some (ascii ''native''), symbol := Some (ascii ''MATIC''), balance := Some x,
     decimals := Some 18\<rparr>"

text \<open>A portfolio over four chains with one failed chain.\<close>

definition example_balances :: "balance_rec list" where
  "example_balances =
     [erc20_on 10 (ascii ''XYZ'') 2, native_eth 2, failed_chain 56,
      erc20_on 137 (ascii ''USDC'') 50, erc20_on 8453 (ascii ''ABC'') 1]"




text \<open>
  Nine tenths and one tenth of a dollar, as doubles: their double sum is 1.0, and the
  largest value divided by it is the double 0.9 again, which does not exceed 0.9.
\<close>

definition lopsided_balances :: "balance_rec list" where
  "lopsided_balances =
     [erc20_on 1 (ascii ''USDC'') (fl (9 / 10)), erc20_on 1 (ascii ''USDT'') (fl (1 / 10))]"

section \<open>Properties of the balance fetcher\<close>

lemma get_w3_idem:
  "get_w3 env cache c = (ok, cache') \<Longrightarrow> get_w3 env cache' c = (ok, cache')"
  by (auto simp: get_w3_def split: if_splits option.splits)

lemma native_returns:
  "get_native_balance env cache w c =
     (Inr (if \<not> fst (get_w3 env cache c) then not_supported_rec c
           else case native_body env w c of
                  Inl e \<Rightarrow> empty_rec\<lparr>chain_id := Some c, error := Some (exn_str e)\<rparr>
                | Inr r \<Rightarrow> r),
      snd (get_w3 env cache c))"
  by (simp add: get_native_balance_def try_except_def split: prod.splits sum.splits)

lemma token_returns:
  "get_token_balance env cache w t c =
     (Inr (if \<not> fst (get_w3 env cache c) then not_supported_rec c
           else case token_body env w t c of
                  Inl e \<Rightarrow> empty_rec\<lparr>chain_id := Some c, contract_address := Some (lower t),
                             error := Some (exn_str e)\<rparr>
                | Inr r \<Rightarrow> r),
      snd (get_w3 env cache c))"
  by (simp add: get_token_balance_def try_except_def split: prod.splits sum.splits)

lemma loop_result:
  assumes "get_w3 env cache c = (ok, cache)"
  shows "wallet_tokens_loop env w c ts acc cache =
     (Inr (acc @ filter (\<lambda>r. \<not> has_error r \<and> positive_balance r)
                   (map (\<lambda>t. projr (fst (get_token_balance env cache w t c))) ts)), cache)"
  using assms
proof (induction ts arbitrary: acc)
  case Nil
  then show ?case by simp
next
  case (Cons t ts)
  have stay: "snd (get_w3 env cache c) = cache" using Cons.prems by simp
  show ?case
    using Cons.IH [OF Cons.prems] stay
    by (simp add: token_returns)
qed

lemma wallet_tokens_result:
  "get_wallet_tokens env cache w c toks =
     (let native = projr (fst (get_native_balance env cache w c));
          cache1 = snd (get_native_balance env cache w c)
      in (Inr ((if has_error native then [] else [native]) @
               filter (\<lambda>r. \<not> has_error r \<and> positive_balance r)
                 (map (\<lambda>t. projr (fst (get_token_balance env cache1 w t c)))
                    (case toks of None \<Rightarrow> [] | Some ts \<Rightarrow> ts))), cache1))"
proof -
  obtain ok cache1 where g: "get_w3 env cache c = (ok, cache1)" by (cases "get_w3 env cache c")
  have idem: "get_w3 env cache1 c = (ok, cache1)" by (rule get_w3_idem [OF g])
  show ?thesis
    using g loop_result [OF idem]
    by (simp add: get_wallet_tokens_def native_returns Let_def split: option.splits)
qed


subsection \<open>Evaluation rules\<close>

lemmas str_simps = str_int_def str_nat.simps ascii_def

lemmas addr_simps = normalize_address_def strip_def is_space_def startswith_def lower_def char_lower_def
  ascii_def
  example_wallet_def example_token_def example_unheld_token_def

lemmas fetch_simps = native_returns token_returns get_w3_def native_body_def token_body_def
  or_default_def config_name_def config_symbol_def config_decimals_def CHAIN_CONFIG_def
  not_supported_rec_def empty_rec_def example_rpc_def failing_rpc_def ascii_def

subsection \<open>Claims about the balance fetcher\<close>

text \<open>
  Claim C4. \<open>get_wallet_tokens\<close> always performs the native resolution, and every token
  resolution of the optional list, in order; each of them returns a record and, after the
  native one, leaves the connection cache as it is. The list returned is the native record
  when it carries no error (its \<open>error\<close> entry is absent or empty, the test the code makes),
  followed by exactly those token records that carry no error and have a balance strictly
  greater than zero, in the order of the addresses. Token records with a zero balance are
  dropped.
\<close>

theorem get_wallet_tokens_inclusion:
  "\<exists>native cache1 rs.
     get_native_balance env cache w c = (Inr native, cache1) \<and>
     map (\<lambda>t. get_token_balance env cache1 w t c) (case toks of None \<Rightarrow> [] | Some ts \<Rightarrow> ts)
       = map (\<lambda>r. (Inr r, cache1)) rs \<and>
     get_wallet_tokens env cache w c toks =
       (Inr ((if has_error native then [] else [native]) @
             filter (\<lambda>r. \<not> has_error r \<and> positive_balance r) rs), cache1)"
proof -
  define addrs where "addrs = (case toks of None \<Rightarrow> [] | Some ts \<Rightarrow> ts)"
  obtain ok cache1 where g: "get_w3 env cache c = (ok, cache1)" by (cases "get_w3 env cache c")
  have idem: "get_w3 env cache1 c = (ok, cache1)" by (rule get_w3_idem [OF g])
  define native where "native = projr (fst (get_native_balance env cache w c))"
  define rs where "rs = map (\<lambda>t. projr (fst (get_token_balance env cache1 w t c))) addrs"
  have n: "get_native_balance env cache w c = (Inr native, cache1)"
    using g by (simp add: native_def native_returns)
  have t: "map (\<lambda>t. get_token_balance env cache1 w t c) addrs = map (\<lambda>r. (Inr r, cache1)) rs"
    using idem by (simp add: rs_def token_returns)
  have r: "get_wallet_tokens env cache w c toks =
       (Inr ((if has_error native then [] else [native]) @
             filter (\<lambda>r. \<not> has_error r \<and> positive_balance r) rs), cache1)"
  proof -
    have s: "snd (get_native_balance env cache w c) = cache1" using n by simp
    show ?thesis
      by (simp add: wallet_tokens_result Let_def s rs_def addrs_def native_def)
  qed
  from n t r show ?thesis unfolding addrs_def by blast
qed

theorem get_wallet_tokens_inclusion_witness:
  "get_wallet_tokens example_rpc {} example_wallet 1
     (Some [example_token, example_unheld_token, ascii ''0x12'']) =
   (Inr [\<lparr>chain_id = Some 1, chain_name = Some (ascii ''Ethereum''), token_type = Some (ascii ''native''),
          contract_address = None, symbol = Some (ascii ''ETH''), name = None,
          balance = Some (5 / 10 ^ 18), balance_wei = Some 5, balance_raw = None,
          decimals = Some 18, error = None\<rparr>,
         \<lparr>chain_id = Some 1, chain_name = Some (ascii ''Ethereum''), token_type = Some (ascii ''erc20''),
          contract_address = Some (ascii ''0xcccccccccccccccccccccccccccccccccccccccc''),
          symbol = Some (ascii ''UNKNOWN''), name = Some (ascii ''Coin''),
          balance = Some (5 / 2), balance_wei = None, balance_raw = Some 2500000,
          decimals = Some 6, error = None\<rparr>], {1})"
proof -
  obtain native cache1 rs where
    n: "get_native_balance example_rpc {} example_wallet 1 = (Inr native, cache1)" and
    t: "map (\<lambda>t. get_token_balance example_rpc cache1 example_wallet t 1)
          [example_token, example_unheld_token, ascii ''0x12''] = map (\<lambda>r. (Inr r, cache1)) rs" and
    r: "get_wallet_tokens example_rpc {} example_wallet 1
          (Some [example_token, example_unheld_token, ascii ''0x12'']) =
        (Inr ((if has_error native then [] else [native]) @
              filter (\<lambda>r. \<not> has_error r \<and> positive_balance r) rs), cache1)"
    using get_wallet_tokens_inclusion [of example_rpc "{}" example_wallet 1
        "Some [example_token, example_unheld_token, ascii ''0x12'']"]
    unfolding option.case by blast
  have c: "cache1 = {1}" using n by (simp add: fetch_simps)
  have nv: "native = \<lparr>chain_id = Some 1, chain_name = Some (ascii ''Ethereum''), token_type = Some (ascii ''native''),
          contract_address = None, symbol = Some (ascii ''ETH''), name = None,
          balance = Some (5 / 10 ^ 18), balance_wei = Some 5, balance_raw = None,
          decimals = Some 18, error = None\<rparr>"
    using n by (simp add: fetch_simps addr_simps)
  have "length rs = 3" using arg_cong [OF t, of length] by simp
  then obtain r1 r2 r3 where rs: "rs = [r1, r2, r3]"
    by (auto simp: length_Suc_conv numeral_3_eq_3)
  have r1: "r1 = \<lparr>chain_id = Some 1, chain_name = Some (ascii ''Ethereum''), token_type = Some (ascii ''erc20''),
          contract_address = Some (ascii ''0xcccccccccccccccccccccccccccccccccccccccc''),
          symbol = Some (ascii ''UNKNOWN''), name = Some (ascii ''Coin''),
          balance = Some (5 / 2), balance_wei = None, balance_raw = Some 2500000,
          decimals = Some 6, error = None\<rparr>"
    using t unfolding rs c by (simp add: fetch_simps addr_simps)
  have r2: "\<not> positive_balance r2"
    using t unfolding rs c by (auto simp add: fetch_simps addr_simps positive_balance_def)
  have r3: "has_error r3"
    using t unfolding rs c by (auto simp add: fetch_simps addr_simps has_error_def truthy_def)
  show ?thesis
    unfolding r rs c using r2 r3
    by (simp add: nv r1 has_error_def truthy_def positive_balance_def)
qed




text \<open>
  Claim C9. On an available chain, with well-formed addresses and a contract instance:
  when \<open>balanceOf\<close> answers \<open>raw\<close>, the record is fully populated, each of
  \<open>decimals\<close>, \<open>symbol\<close> and \<open>name\<close> being the contract's answer or, independently, its
  default (18, \<open>UNKNOWN\<close>, \<open>Unknown Token\<close>) when that query fails, and the balance is
  \<open>raw / 10 ^ decimals\<close>; when \<open>balanceOf\<close> fails, the record carries the chain, the
  lower-cased contract address and the error, and none of the balance fields.
\<close>

theorem token_balance_defaults:
  assumes avail: "fst (get_w3 env cache c)"
    and wallet: "normalize_address w = Inr wallet"
    and token: "normalize_address t = Inr token"
    and contract: "eth_contract env c token = None"
  shows "(\<forall>raw. call_balanceOf env c token wallet = Inr raw \<longrightarrow>
        fst (get_token_balance env cache w t c) =
          Inr \<lparr>chain_id = Some c, chain_name = Some (config_name c),
               token_type = Some (ascii ''erc20''), contract_address = Some (lower t),
               symbol = Some (case call_symbol env c token of Inl x \<Rightarrow> ascii ''UNKNOWN'' | Inr s \<Rightarrow> s),
               name = Some (case call_name env c token of Inl x \<Rightarrow> ascii ''Unknown Token'' | Inr n \<Rightarrow> n),
               balance = Some (of_nat raw /
                  10 ^ (case call_decimals env c token of Inl x \<Rightarrow> 18 | Inr d \<Rightarrow> d)),
               balance_wei = None, balance_raw = Some raw,
               decimals = Some (case call_decimals env c token of Inl x \<Rightarrow> 18 | Inr d \<Rightarrow> d),
               error = None\<rparr>) \<and>
     (\<forall>e. call_balanceOf env c token wallet = Inl e \<longrightarrow>
        fst (get_token_balance env cache w t c) =
          Inr \<lparr>chain_id = Some c, chain_name = None, token_type = None,
               contract_address = Some (lower t), symbol = None, name = None,
               balance = None, balance_wei = None, balance_raw = None, decimals = None,
               error = Some (exn_str e)\<rparr>)"
  using assms
  by (simp add: token_returns token_body_def or_default_def empty_rec_def Let_def)

theorem token_balance_defaults_witness:
  "fst (get_token_balance example_rpc {} example_wallet example_token 1) =
     Inr \<lparr>chain_id = Some 1, chain_name = Some (ascii ''Ethereum''), token_type = Some (ascii ''erc20''),
          contract_address = Some (ascii ''0xcccccccccccccccccccccccccccccccccccccccc''),
          symbol = Some (ascii ''UNKNOWN''), name = Some (ascii ''Coin''),
          balance = Some (5 / 2), balance_wei = None, balance_raw = Some 2500000,
          decimals = Some 6, error = None\<rparr> \<and>
   fst (get_token_balance failing_rpc {} example_wallet example_token 1) =
     Inr \<lparr>chain_id = Some 1, chain_name = None, token_type = None,
          contract_address = Some (ascii ''0xcccccccccccccccccccccccccccccccccccccccc''),
          symbol = None, name = None, balance = None, balance_wei = None,
          balance_raw = None, decimals = None, error = Some (ascii ''timeout'')\<rparr>"
proof -
  have w: "normalize_address example_wallet = Inr example_wallet"
    by (simp add: addr_simps)
  have t: "normalize_address example_token = Inr example_token"
    by (simp add: addr_simps)
  have a1: "fst (get_w3 example_rpc {} 1)" by (simp add: get_w3_def example_rpc_def ascii_def)
  have a2: "fst (get_w3 failing_rpc {} 1)" by (simp add: get_w3_def example_rpc_def failing_rpc_def ascii_def)
  have c1: "eth_contract example_rpc 1 example_token = None" by (simp add: example_rpc_def)
  have c2: "eth_contract failing_rpc 1 example_token = None"
    by (simp add: example_rpc_def failing_rpc_def)
  have l: "lower example_token = ascii ''0xcccccccccccccccccccccccccccccccccccccccc''"
    by (simp add: lower_def char_lower_def example_token_def ascii_def)
  have ne: "example_token \<noteq> example_unheld_token"
    by (simp add: example_token_def example_unheld_token_def ascii_def)
  show ?thesis
    using token_balance_defaults [OF a1 w t c1] token_balance_defaults [OF a2 w t c2]
    by (simp add: l ne example_rpc_def failing_rpc_def config_name_def CHAIN_CONFIG_def)
qed

text \<open>
  The three functions return and do not raise, whatever the wallet string, the token
  string, the chain identifier and the answers of the node. A chain without a handle gives
  the "not supported" record; an exception raised in the body of the \<open>try\<close> (address
  normalisation included) gives a record whose \<open>error\<close> is \<open>str(e)\<close>; and no record in the
  list of \<open>get_wallet_tokens\<close> has a non-empty \<open>error\<close>.
\<close>

lemma fetcher_returns:
  "(\<exists>r cache'. get_native_balance env cache w c = (Inr r, cache')) \<and>
   (\<exists>r cache'. get_token_balance env cache w t c = (Inr r, cache')) \<and>
   (\<exists>rs cache'. get_wallet_tokens env cache w c toks = (Inr rs, cache') \<and>
       (\<forall>r\<in>set rs. \<not> has_error r)) \<and>
   (\<not> fst (get_w3 env cache c) \<longrightarrow>
       fst (get_native_balance env cache w c) = Inr (not_supported_rec c) \<and>
       fst (get_token_balance env cache w t c) = Inr (not_supported_rec c)) \<and>
   (fst (get_w3 env cache c) \<and> native_body env w c = Inl e \<longrightarrow>
       fst (get_native_balance env cache w c) =
         Inr (empty_rec\<lparr>chain_id := Some c, error := Some (exn_str e)\<rparr>)) \<and>
   (fst (get_w3 env cache c) \<and> token_body env w t c = Inl e \<longrightarrow>
       fst (get_token_balance env cache w t c) =
         Inr (empty_rec\<lparr>chain_id := Some c, contract_address := Some (lower t),
                error := Some (exn_str e)\<rparr>))"
  by (simp add: native_returns token_returns wallet_tokens_result Let_def)

text \<open>
  Claim C10 at a failure whose exception has an empty message (\<open>str(TimeoutError())\<close> is
  \<open>""\<close>). The native resolution returns the record \<open>{chain_id: 1, error: ""}\<close>; the test
  \<open>not native_balance.get("error")\<close> takes the empty string for no error, so
  \<open>get_wallet_tokens\<close> neither raises nor omits the failure: the record is in the list it
  returns, and the aggregator would count it as a valid balance.
\<close>

theorem empty_error_message_is_kept:
  "eth_get_balance silent_rpc 1 example_wallet = Inl (RpcError []) \<and>
   get_native_balance silent_rpc {} example_wallet 1 =
     (Inr (empty_rec\<lparr>chain_id := Some 1, error := Some []\<rparr>), {1}) \<and>
   \<not> has_error (empty_rec\<lparr>chain_id := Some 1, error := Some []\<rparr>) \<and>
   get_wallet_tokens silent_rpc {} example_wallet 1 None =
     (Inr [empty_rec\<lparr>chain_id := Some 1, error := Some []\<rparr>], {1}) \<and>
   valid_balances [empty_rec\<lparr>chain_id := Some 1, error := Some []\<rparr>] =
     [empty_rec\<lparr>chain_id := Some 1, error := Some []\<rparr>]"
  by (simp add: wallet_tokens_result Let_def fetch_simps addr_simps silent_rpc_def
      has_error_def truthy_def valid_balances_def)

section \<open>Properties of the aggregator\<close>

subsection \<open>Rounding\<close>


lemma round_half_even_int: "round_half_even (of_int k) = k"
  by (simp add: round_half_even_def)

lemma fl_zero: "fl 0 = 0"
  by (simp add: fl_def)

lemma py_round2_zero: "py_round2 0 = 0"
  by (simp add: py_round2_def round_half_even_def fl_zero)

lemma py_sum_Nil: "py_sum [] = 0"
  by (simp add: py_sum_def)

lemma py_sum_snoc: "py_sum (vs @ [v]) = fl (py_sum vs + v)"
  by (simp add: py_sum_def)

text \<open>Reading back the decimal rendering of a count.\<close>

lemma nat_of_digits_snoc: "nat_of_digits (ds @ [c]) = 10 * nat_of_digits ds + (c - 48)"
  by (simp add: nat_of_digits_def)

lemma nat_of_digits_str_nat: "nat_of_digits (str_nat n) = n"
proof (induction n rule: str_nat.induct)
  case (1 n)
  show ?case
  proof (cases "n < 10")
    case True
    then show ?thesis
      by (subst str_nat.simps) (simp add: nat_of_digits_def)
  next
    case False
    then show ?thesis
      using "1.IH" by (subst str_nat.simps) (simp add: nat_of_digits_snoc)
  qed
qed

lemma str_nat_inj: "str_nat m = str_nat n \<Longrightarrow> m = n"
  by (metis nat_of_digits_str_nat)

subsection \<open>Enrichment\<close>

lemma enrich_one_keeps:
  "chain_id (enrich_one env b) = chain_id b"
  "token_type (enrich_one env b) = token_type b"
  "symbol (enrich_one env b) = symbol b"
  "balance (enrich_one env b) = balance b"
  "chain_name (enrich_one env b) = chain_name b"
  by (simp_all add: enrich_one_def balance_rec.defs split: option.splits)

lemma enrich_one_price:
  "price_usd (enrich_one env b) =
     (case get_token_price env (address_or_native b) (chain_id b) (symbol b) of
        None \<Rightarrow> None
      | Some p \<Rightarrow> if balance_truthy b then Some p else None)"
  "value_usd (enrich_one env b) =
     (case get_token_price env (address_or_native b) (chain_id b) (symbol b) of
        None \<Rightarrow> 0
      | Some p \<Rightarrow> if balance_truthy b then fl (p * balance_or_zero b) else 0)"
  by (simp_all add: enrich_one_def balance_rec.defs enriched.defs split: option.splits)

text \<open>What \<open>_enrich_with_prices\<close> does for a record with a non-zero balance, for a record
  without a price, and that it keeps every record.\<close>

lemma enrich_one_priced:
  "get_token_price env (address_or_native b) (chain_id b) (symbol b) = Some p \<Longrightarrow>
   balance b = Some x \<Longrightarrow> x \<noteq> 0 \<Longrightarrow>
   price_usd (enrich_one env b) = Some p \<and> value_usd (enrich_one env b) = fl (p * x)"
  by (simp add: enrich_one_price balance_truthy_def balance_or_zero_def)

lemma enrich_one_unpriced:
  "get_token_price env (address_or_native b) (chain_id b) (symbol b) = None \<Longrightarrow>
   price_usd (enrich_one env b) = None \<and> value_usd (enrich_one env b) = 0"
  by (simp add: enrich_one_price)

lemma enrich_keeps_every_record:
  "length (enrich_with_prices env bs) = length bs \<and>
   map chain_id (enrich_with_prices env bs) = map chain_id bs \<and>
   map symbol (enrich_with_prices env bs) = map symbol bs"
  by (simp add: enrich_with_prices_def enrich_one_keeps comp_def)

subsection \<open>When the aggregator returns\<close>

lemma group_by_chain_returns:
  "\<forall>e\<in>set es. chain_id e \<noteq> None \<Longrightarrow> \<exists>r. group_by_chain es acc = Inr r"
  by (induction es arbitrary: acc) auto

lemma chain_ids_returns:
  "\<forall>b\<in>set bs. chain_id b \<noteq> None \<Longrightarrow> \<exists>cs. chain_ids bs = Inr cs"
  by (induction bs) auto

lemma chain_ids_map:
  "chain_ids bs = Inr cs \<Longrightarrow> map chain_id bs = map Some cs"
  by (induction bs arbitrary: cs) (auto split: option.splits sum.splits)

lemma aggregate_returns:
  assumes "\<forall>b\<in>set (valid_balances balances). chain_id b \<noteq> None"
  shows "\<exists>s. aggregate_portfolio env wallet balances = Inr s"
proof -
  have "\<forall>e\<in>set (enrich_with_prices env (valid_balances balances)). chain_id e \<noteq> None"
    using assms by (simp add: enrich_with_prices_def enrich_one_keeps)
  then obtain r where r: "group_by_chain (enrich_with_prices env (valid_balances balances)) [] = Inr r"
    using group_by_chain_returns by blast
  obtain cs where cs: "chain_ids (valid_balances balances) = Inr cs"
    using chain_ids_returns [OF assms] by blast
  show ?thesis
    by (simp add: aggregate_portfolio_def Let_def r cs)
qed

lemma aggregate_empty:
  "valid_balances balances = [] \<Longrightarrow>
   aggregate_portfolio env wallet balances = Inr (create_empty_portfolio wallet balances)"
  by (simp add: aggregate_portfolio_def)

lemma aggregate_fields:
  assumes ret: "aggregate_portfolio env wallet balances = Inr s"
  shows "\<exists>by_chain cs.
     group_by_chain (enrich_with_prices env (valid_balances balances)) [] = Inr by_chain \<and>
     chain_ids (valid_balances balances) = Inr cs \<and>
     total_value_usd s =
       py_round2 (py_sum (map value_usd (enrich_with_prices env (valid_balances balances)))) \<and>
     native_value_usd s = py_round2 (py_sum (map value_usd
       (filter (\<lambda>b. token_type b = Some (ascii ''native''))
          (enrich_with_prices env (valid_balances balances))))) \<and>
     erc20_value_usd s = py_round2 (py_sum (map value_usd
       (filter (\<lambda>b. token_type b = Some (ascii ''erc20''))
          (enrich_with_prices env (valid_balances balances))))) \<and>
     tokens_count s = length (valid_balances balances) \<and>
     chains_count s = card (set cs) \<and>
     breakdown_by_chain s = sorted_reverse cg_value_usd (map snd by_chain) \<and>
     breakdown_by_token s = sorted_reverse tg_value_usd
       (map snd (group_by_token (enrich_with_prices env (valid_balances balances)) [])) \<and>
     (valid_balances balances \<noteq> [] \<longrightarrow>
        warnings s = generate_warnings (enrich_with_prices env (valid_balances balances))
          (py_sum (map value_usd (enrich_with_prices env (valid_balances balances)))))"
proof (cases "valid_balances balances = []")
  case True
  then have "s = create_empty_portfolio wallet balances"
    using ret by (simp add: aggregate_empty)
  then show ?thesis
    using True
    by (simp add: create_empty_portfolio_def Let_def enrich_with_prices_def py_round2_zero
        py_sum_Nil sorted_reverse_def)
next
  case False
  then show ?thesis
    using ret by (auto simp: aggregate_portfolio_def Let_def split: sum.splits)
qed

subsection \<open>The empty summary\<close>




subsection \<open>Warnings\<close>

lemma fold_max_Max: "fold max (map f bs) (f b) = Max (set (map f (b # bs)))"
  by (simp only: list.map Max.set_eq_fold)

lemma missing_price_exists:
  "(0 < length (filter P es)) = (\<exists>e\<in>set es. P e)"
  by (induction es) auto

text \<open>
  Claim C7. For every list of enriched records and every total, the warnings are the
  concatenation, in this order, of: the missing-price message, present exactly when some
  record has no price, and carrying the number of such records in decimal; the low-value
  message, exactly when the total is below 1; the concentration message, exactly when
  there is a record, the total is positive and the largest value divided by the total
  exceeds 0.9, the quotient being the double that the division returns and 0.9 the double
  of that literal. So the list is a subsequence of the three messages in that order. In a
  summary built from at least one valid record the warnings are those of the enriched
  records, with the double sum of their values for the total.
\<close>

theorem warnings_in_fixed_order:
  "generate_warnings es tot =
     (if \<exists>e\<in>set es. price_usd e = None
      then [info_sign @ ascii '' '' @ str_nat (length (filter (\<lambda>e. price_usd e = None) es)) @
              ascii '' token(s) missing price data - using fallback estimates'']
      else []) @
     (if tot < 1 then [info_sign @ ascii '' Portfolio value below $1 USD''] else []) @
     (if es \<noteq> [] \<and> 0 < tot \<and> fl (9 / 10) < fl (Max (set (map value_usd es)) / tot)
      then [warning_sign @ ascii '' Portfolio highly concentrated in single asset'']
      else []) \<and>
   subseq (generate_warnings es tot)
     [info_sign @ ascii '' '' @ str_nat (length (filter (\<lambda>e. price_usd e = None) es)) @
        ascii '' token(s) missing price data - using fallback estimates'',
      info_sign @ ascii '' Portfolio value below $1 USD'',
      warning_sign @ ascii '' Portfolio highly concentrated in single asset''] \<and>
   (\<forall>s. aggregate_portfolio env wallet balances = Inr s \<and> valid_balances balances \<noteq> [] \<longrightarrow>
      warnings s = generate_warnings (enrich_with_prices env (valid_balances balances))
        (py_sum (map value_usd (enrich_with_prices env (valid_balances balances)))))"
proof -
  have eq: "generate_warnings es tot =
     (if \<exists>e\<in>set es. price_usd e = None
      then [info_sign @ ascii '' '' @ str_nat (length (filter (\<lambda>e. price_usd e = None) es)) @
              ascii '' token(s) missing price data - using fallback estimates'']
      else []) @
     (if tot < 1 then [info_sign @ ascii '' Portfolio value below $1 USD''] else []) @
     (if es \<noteq> [] \<and> 0 < tot \<and> fl (9 / 10) < fl (Max (set (map value_usd es)) / tot)
      then [warning_sign @ ascii '' Portfolio highly concentrated in single asset'']
      else [])"
  proof (cases es)
    case Nil
    then show ?thesis
      by (simp add: generate_warnings_def msg_low_value_def)
  next
    case (Cons b bs)
    have m: "fold max (map value_usd bs) (value_usd b) = Max (set (map value_usd (b # bs)))"
      by (rule fold_max_Max)
    show ?thesis
      using missing_price_exists [of "\<lambda>e. price_usd e = None" es]
      unfolding Cons generate_warnings_def Let_def list.case m
      by (simp add: msg_missing_price_def msg_low_value_def msg_concentrated_def
          del: set_map list.map)
  qed
  have sub: "subseq ((if a then [x] else []) @ (if b then [y] else []) @ (if c then [z] else []))
     [x, y, z]" for a b c and x y z :: pystr
    by simp
  have link: "\<forall>s. aggregate_portfolio env wallet balances = Inr s \<and> valid_balances balances \<noteq> [] \<longrightarrow>
      warnings s = generate_warnings (enrich_with_prices env (valid_balances balances))
        (py_sum (map value_usd (enrich_with_prices env (valid_balances balances))))"
    using aggregate_fields by blast
  show ?thesis
    unfolding eq using sub link by simp
qed

subsection \<open>Totals\<close>





subsection \<open>Grouping\<close>


lemma dd_update_keys:
  "map fst (dd_update k f d kvs) =
     (if k \<in> set (map fst kvs) then map fst kvs else map fst kvs @ [k])"
  by (induction kvs) (auto simp: rev_image_eqI)





subsection \<open>Sorting and encounter order\<close>

lemma sorted_reverse_descending:
  "sorted_wrt (\<lambda>a b. key b \<le> key a) (sorted_reverse key xs)"
proof -
  have "sorted (map (\<lambda>x. - key x) (sort_key (\<lambda>x. - key x) xs))"
    by (rule sorted_sort_key)
  then show ?thesis
    by (simp add: sorted_reverse_def sorted_map)
qed

lemma sorted_reverse_stable:
  "filter (\<lambda>x. key x = v) (sorted_reverse key xs) = filter (\<lambda>x. key x = v) xs"
  using sort_key_stable [of "\<lambda>x. - key x" "- v" xs]
  by (simp add: sorted_reverse_def)

lemma remdups_snoc: "remdups (xs @ [c]) = filter (\<lambda>x. x \<noteq> c) (remdups xs) @ [c]"
  by (induction xs) auto

lemma first_seen_Cons:
  "rev (remdups (rev (c # cs))) = c # filter (\<lambda>x. x \<noteq> c) (rev (remdups (rev cs)))"
  by (simp add: remdups_snoc rev_filter)

lemma group_by_chain_keys:
  "group_by_chain es acc = Inr r \<Longrightarrow> map chain_id es = map Some cs \<Longrightarrow>
   map fst r = map fst acc @ filter (\<lambda>k. k \<notin> set (map fst acc)) (rev (remdups (rev cs)))"
proof (induction es arbitrary: acc cs)
  case Nil
  then show ?case by simp
next
  case (Cons b bs)
  then obtain c cs' where cs: "cs = c # cs'" and c: "chain_id b = Some c"
    and rest: "map chain_id bs = map Some cs'"
    by (cases cs) auto
  have run: "group_by_chain bs (dd_update c (chain_step c b) chain_default acc) = Inr r"
    using Cons.prems(1) c by simp
  have f: "filter (\<lambda>k. k \<noteq> c \<and> P k) xs = filter P (filter (\<lambda>x. x \<noteq> c) xs)" for P xs
    by (induction xs) auto
  show ?case
  proof (cases "c \<in> set (map fst acc)")
    case True
    have "filter (\<lambda>k. k \<notin> set (map fst acc)) (filter (\<lambda>x. x \<noteq> c) (rev (remdups (rev cs')))) =
          filter (\<lambda>k. k \<notin> set (map fst acc)) (rev (remdups (rev cs')))"
      using True by (auto intro: filter_cong simp del: set_map)
    then show ?thesis
      using Cons.IH [OF run rest] True
      unfolding cs first_seen_Cons by (simp add: dd_update_keys del: set_map)
  next
    case False
    have "filter (\<lambda>k. k \<notin> set (map fst acc @ [c])) (rev (remdups (rev cs'))) =
          filter (\<lambda>k. k \<notin> set (map fst acc)) (filter (\<lambda>x. x \<noteq> c) (rev (remdups (rev cs'))))"
      by (auto intro: filter_cong simp del: set_map)
    then show ?thesis
      using Cons.IH [OF run rest] False
      unfolding cs first_seen_Cons by (simp add: dd_update_keys del: set_map)
  qed
qed

lemma group_by_token_keys:
  "map fst (group_by_token es acc) =
     map fst acc @ filter (\<lambda>k. k \<notin> set (map fst acc)) (rev (remdups (rev (map symbol_key es))))"
proof (induction es arbitrary: acc)
  case Nil
  then show ?case by simp
next
  case (Cons b bs)
  define c where "c = symbol_key b"
  define ks where "ks = rev (remdups (rev (map symbol_key bs)))"
  have step: "map fst (group_by_token (b # bs) acc) =
      map fst (dd_update c (token_step c b) token_default acc) @
      filter (\<lambda>k. k \<notin> set (map fst (dd_update c (token_step c b) token_default acc))) ks"
    unfolding ks_def c_def by (simp only: group_by_token.simps Cons.IH)
  have unfold: "rev (remdups (rev (map symbol_key (b # bs)))) = c # filter (\<lambda>x. x \<noteq> c) ks"
    unfolding ks_def c_def by (simp only: list.map first_seen_Cons)
  show ?case
  proof (cases "c \<in> set (map fst acc)")
    case True
    have "filter (\<lambda>k. k \<notin> set (map fst acc)) (filter (\<lambda>x. x \<noteq> c) ks) =
          filter (\<lambda>k. k \<notin> set (map fst acc)) ks"
      using True by (auto intro: filter_cong simp del: set_map)
    then show ?thesis
      unfolding step unfold using True by (simp add: dd_update_keys del: set_map)
  next
    case False
    have "filter (\<lambda>k. k \<notin> set (map fst acc @ [c])) ks =
          filter (\<lambda>k. k \<notin> set (map fst acc)) (filter (\<lambda>x. x \<noteq> c) ks)"
      by (auto intro: filter_cong simp del: set_map)
    then show ?thesis
      unfolding step unfold using False by (simp add: dd_update_keys del: set_map)
  qed
qed

lemma dd_update_inv:
  assumes "\<And>g. P k (f g)" and "\<forall>kv\<in>set kvs. P (fst kv) (snd kv)"
  shows "\<forall>kv\<in>set (dd_update k f d kvs). P (fst kv) (snd kv)"
  using assms
proof (induction kvs)
  case Nil
  then show ?case by simp
next
  case (Cons kv kvs)
  obtain k' v where kv: "kv = (k', v)" by (cases kv)
  have tail: "\<forall>x\<in>set kvs. P (fst x) (snd x)" using Cons.prems(2) by simp
  have hd: "P k' v" using Cons.prems(2) kv by simp
  have ih: "\<forall>x\<in>set (dd_update k f d kvs). P (fst x) (snd x)"
    using Cons.IH [OF Cons.prems(1) tail] .
  show ?case
  proof (cases "k' = k")
    case True
    then show ?thesis using tail Cons.prems(1) by (simp add: kv)
  next
    case False
    then show ?thesis using ih hd by (simp add: kv)
  qed
qed

lemma group_by_chain_ids:
  "group_by_chain es acc = Inr r \<Longrightarrow> \<forall>kv\<in>set acc. cg_chain_id (snd kv) = fst kv \<Longrightarrow>
   \<forall>kv\<in>set r. cg_chain_id (snd kv) = fst kv"
proof (induction es arbitrary: acc)
  case Nil
  then show ?case by simp
next
  case (Cons b bs)
  then obtain c where c: "chain_id b = Some c" by (auto split: option.splits)
  have run: "group_by_chain bs (dd_update c (chain_step c b) chain_default acc) = Inr r"
    using Cons.prems(1) c by simp
  have "\<forall>kv\<in>set (dd_update c (chain_step c b) chain_default acc). cg_chain_id (snd kv) = fst kv"
    by (rule dd_update_inv [where P = "\<lambda>k g. cg_chain_id g = k"])
       (simp_all add: chain_step_def Cons.prems(2))
  from Cons.IH [OF run this] show ?case .
qed

lemma group_by_token_symbols:
  "\<forall>kv\<in>set acc. tg_symbol (snd kv) = fst kv \<Longrightarrow>
   \<forall>kv\<in>set (group_by_token es acc). tg_symbol (snd kv) = fst kv"
proof (induction es arbitrary: acc)
  case Nil
  then show ?case by simp
next
  case (Cons b bs)
  have "\<forall>kv\<in>set (dd_update (symbol_key b) (token_step (symbol_key b) b) token_default acc).
      tg_symbol (snd kv) = fst kv"
    by (rule dd_update_inv [where P = "\<lambda>k g. tg_symbol g = k"])
       (simp_all add: token_step_def Cons.prems)
  from Cons.IH [OF this] show ?case by simp
qed

lemma chain_encounter_order:
  assumes "group_by_chain es [] = Inr r" and "map chain_id es = map Some cs"
  shows "map cg_chain_id (map snd r) = rev (remdups (rev cs))"
proof -
  have "map cg_chain_id (map snd r) = map fst r"
    using group_by_chain_ids [OF assms(1)] by simp
  then show ?thesis
    using group_by_chain_keys [OF assms] by simp
qed

lemma token_encounter_order:
  "map tg_symbol (map snd (group_by_token es [])) = rev (remdups (rev (map symbol_key es)))"
proof -
  have "map tg_symbol (map snd (group_by_token es [])) = map fst (group_by_token es [])"
    using group_by_token_symbols [of "[]" es] by simp
  then show ?thesis
    by (simp add: group_by_token_keys)
qed

text \<open>
  Claim C6. In every summary returned, \<open>breakdown_by_chain\<close> and \<open>breakdown_by_token\<close>
  are in descending (non-increasing) order of \<open>value_usd\<close>, and the sort is stable: the
  groups of any one value stand in the order of the grouping dictionary, which is the
  order in which each chain identifier (each symbol) is first met in the valid records.
\<close>

theorem breakdowns_sorted_stable:
  "((\<forall>b\<in>set (valid_balances balances). chain_id b \<noteq> None) \<longrightarrow>
      (\<exists>s. aggregate_portfolio env wallet balances = Inr s)) \<and>
   (\<forall>s. aggregate_portfolio env wallet balances = Inr s \<longrightarrow>
      sorted_wrt (\<lambda>a b. cg_value_usd b \<le> cg_value_usd a) (breakdown_by_chain s) \<and>
      sorted_wrt (\<lambda>a b. tg_value_usd b \<le> tg_value_usd a) (breakdown_by_token s) \<and>
      (\<exists>by_chain cs.
         group_by_chain (enrich_with_prices env (valid_balances balances)) [] = Inr by_chain \<and>
         chain_ids (valid_balances balances) = Inr cs \<and>
         map cg_chain_id (map snd by_chain) = rev (remdups (rev cs)) \<and>
         (\<forall>v. filter (\<lambda>g. cg_value_usd g = v) (breakdown_by_chain s) =
              filter (\<lambda>g. cg_value_usd g = v) (map snd by_chain))) \<and>
      map tg_symbol (map snd (group_by_token (enrich_with_prices env (valid_balances balances)) [])) =
        rev (remdups (rev (map symbol_key (enrich_with_prices env (valid_balances balances))))) \<and>
      (\<forall>v. filter (\<lambda>g. tg_value_usd g = v) (breakdown_by_token s) =
           filter (\<lambda>g. tg_value_usd g = v)
             (map snd (group_by_token (enrich_with_prices env (valid_balances balances)) []))))"
proof (intro conjI allI impI)
  assume "\<forall>b\<in>set (valid_balances balances). chain_id b \<noteq> None"
  then show "\<exists>s. aggregate_portfolio env wallet balances = Inr s"
    by (rule aggregate_returns)
next
  fix s
  assume ret: "aggregate_portfolio env wallet balances = Inr s"
  define es where "es = enrich_with_prices env (valid_balances balances)"
  obtain by_chain cs where
    g: "group_by_chain es [] = Inr by_chain" and
    cs: "chain_ids (valid_balances balances) = Inr cs" and
    bc: "breakdown_by_chain s = sorted_reverse cg_value_usd (map snd by_chain)" and
    bt: "breakdown_by_token s = sorted_reverse tg_value_usd (map snd (group_by_token es []))"
    using aggregate_fields [OF ret, folded es_def] by blast
  have ids: "map chain_id es = map Some cs"
    using chain_ids_map [OF cs] by (simp add: es_def enrich_with_prices_def enrich_one_keeps comp_def)
  show "sorted_wrt (\<lambda>a b. cg_value_usd b \<le> cg_value_usd a) (breakdown_by_chain s)"
    unfolding bc by (rule sorted_reverse_descending)
  show "sorted_wrt (\<lambda>a b. tg_value_usd b \<le> tg_value_usd a) (breakdown_by_token s)"
    unfolding bt by (rule sorted_reverse_descending)
  show "\<exists>by_chain cs.
         group_by_chain es [] = Inr by_chain \<and>
         chain_ids (valid_balances balances) = Inr cs \<and>
         map cg_chain_id (map snd by_chain) = rev (remdups (rev cs)) \<and>
         (\<forall>v. filter (\<lambda>g. cg_value_usd g = v) (breakdown_by_chain s) =
              filter (\<lambda>g. cg_value_usd g = v) (map snd by_chain))"
    using g cs chain_encounter_order [OF g ids] unfolding bc
    by (auto simp only: sorted_reverse_stable)
  show "map tg_symbol (map snd (group_by_token es [])) = rev (remdups (rev (map symbol_key es)))"
    by (rule token_encounter_order)
  fix v
  show "filter (\<lambda>g. tg_value_usd g = v) (breakdown_by_token s) =
        filter (\<lambda>g. tg_value_usd g = v) (map snd (group_by_token es []))"
    unfolding bt by (rule sorted_reverse_stable)
qed

subsection \<open>What each group holds\<close>















subsection \<open>Worked examples\<close>

lemmas rec_simps = has_error_def truthy_def native_eth_def native_matic_def erc20_on_def
  failed_chain_def empty_rec_def example_unheld_token_def config_name_def CHAIN_CONFIG_def
  ascii_def

lemmas price_simps = enrich_one_price enrich_one_keeps get_token_price_def
  get_fallback_price_def fallback_prices_def address_or_native_def balance_truthy_def
  balance_or_zero_def no_oracle_def

lemmas group_simps = chain_step_def chain_default_def token_step_def token_default_def
  symbol_key_def sorted_reverse_def str_int_def str_nat.simps

lemma fl_numerals:
  "fl 1 = 1" "fl 50 = 50" "fl 6000 = 6000" "fl 6050 = 6050" "fl 10000000000000000 = 10000000000000000"
  by code_simp+

lemma example_valid:
  "valid_balances example_balances =
     [erc20_on 10 (ascii ''XYZ'') 2, native_eth 2, erc20_on 137 (ascii ''USDC'') 50,
      erc20_on 8453 (ascii ''ABC'') 1]"
  by (simp add: example_balances_def valid_balances_def rec_simps)

lemma example_ids: "\<forall>b\<in>set (valid_balances example_balances). chain_id b \<noteq> None"
  by (simp add: example_valid) (simp add: rec_simps)

lemma example_enriched:
  "map value_usd (enrich_with_prices no_oracle (valid_balances example_balances)) = [0, 6000, 50, 0]"
  "map price_usd (enrich_with_prices no_oracle (valid_balances example_balances)) =
     [None, Some 3000, Some 1, None]"
  "map token_type (enrich_with_prices no_oracle (valid_balances example_balances)) =
     [Some (ascii ''erc20''), Some (ascii ''native''), Some (ascii ''erc20''), Some (ascii ''erc20'')]"
  unfolding example_valid enrich_with_prices_def
  by (simp_all add: price_simps rec_simps fl_numerals)

lemma example_sums:
  "py_round2 (py_sum [0, 6000, 50, 0]) = 6050" "py_round2 (py_sum [6000]) = 6000"
  "py_round2 (py_sum [0, 50, 0]) = 50"
  by code_simp+

lemma example_ratio: "py_sum [0, 6000, 50, 0] = 6050" "fl (9 / 10) < fl (6000 / 6050)"
  by code_simp+

lemma example_groups:
  assumes "group_by_chain (enrich_with_prices no_oracle (valid_balances example_balances)) [] = Inr r"
  shows "map cg_chain_id (sorted_reverse cg_value_usd (map snd r)) = [1, 137, 10, 8453]"
    and "map cg_value_usd (sorted_reverse cg_value_usd (map snd r)) = [6000, 50, 0, 0]"
  using assms unfolding example_valid enrich_with_prices_def
  by (auto simp add: price_simps rec_simps group_simps fl_numerals fl_zero)

lemma example_token_groups:
  "map tg_symbol (sorted_reverse tg_value_usd
      (map snd (group_by_token (enrich_with_prices no_oracle (valid_balances example_balances)) []))) =
     [ascii ''ETH'', ascii ''USDC'', ascii ''XYZ'', ascii ''ABC'']"
  "map tg_value_usd (sorted_reverse tg_value_usd
      (map snd (group_by_token (enrich_with_prices no_oracle (valid_balances example_balances)) []))) =
     [6000, 50, 0, 0]"
  unfolding example_valid enrich_with_prices_def
  by (simp_all add: price_simps rec_simps group_simps fl_numerals fl_zero)

lemma example_totals:
  assumes s: "aggregate_portfolio no_oracle (ascii ''w'') example_balances = Inr s"
  shows "total_value_usd s = 6050 \<and> native_value_usd s = 6000 \<and> erc20_value_usd s = 50 \<and>
   tokens_count s = 4 \<and>
   map cg_chain_id (breakdown_by_chain s) = [1, 137, 10, 8453] \<and>
   map cg_value_usd (breakdown_by_chain s) = [6000, 50, 0, 0] \<and>
   map tg_symbol (breakdown_by_token s) = [ascii ''ETH'', ascii ''USDC'', ascii ''XYZ'', ascii ''ABC''] \<and>
   map tg_value_usd (breakdown_by_token s) = [6000, 50, 0, 0]"
proof -
  define es where "es = enrich_with_prices no_oracle (valid_balances example_balances)"
  obtain by_chain cs where
    g: "group_by_chain es [] = Inr by_chain" and
    t: "total_value_usd s = py_round2 (py_sum (map value_usd es))" and
    n: "native_value_usd s = py_round2 (py_sum (map value_usd
         (filter (\<lambda>b. token_type b = Some (ascii ''native'')) es)))" and
    e: "erc20_value_usd s = py_round2 (py_sum (map value_usd
         (filter (\<lambda>b. token_type b = Some (ascii ''erc20'')) es)))" and
    c: "tokens_count s = length (valid_balances example_balances)" and
    bc: "breakdown_by_chain s = sorted_reverse cg_value_usd (map snd by_chain)" and
    bt: "breakdown_by_token s = sorted_reverse tg_value_usd (map snd (group_by_token es []))"
    using aggregate_fields [OF s, folded es_def] by blast
  have tv: "total_value_usd s = 6050"
    unfolding t es_def by (simp only: example_enriched example_sums)
  have nv: "native_value_usd s = 6000" and ev: "erc20_value_usd s = 50"
    unfolding n e es_def example_valid enrich_with_prices_def
    by (simp_all add: price_simps rec_simps fl_numerals example_sums)
  have cv: "tokens_count s = 4" unfolding c by (simp add: example_valid)
  show ?thesis
    using tv nv ev cv example_groups [OF g [unfolded es_def]] example_token_groups
    unfolding bc bt es_def by simp
qed

subsection \<open>Totals: worked examples\<close>









subsection \<open>The empty summary and the warnings: worked examples\<close>


lemma lopsided_numerals:
  "fl (1 * fl (9 / 10)) = fl (9 / 10)" "fl (1 * fl (1 / 10)) = fl (1 / 10)"
  "fl (fl (9 / 10)) = fl (9 / 10)" "fl (fl (1 / 10)) = fl (1 / 10)"
  "fl (9 / 10) \<noteq> 0" "fl (1 / 10) \<noteq> 0"
  "py_sum [fl (9 / 10), fl (1 / 10)] = 1"
  "max (fl (9 / 10)) (fl (1 / 10)) = fl (9 / 10)"
  "max (fl (1 / 10)) (fl (9 / 10)) = fl (9 / 10)"
  "fl (fl (9 / 10) / 1) = fl (9 / 10)"
  "9 / 10 < fl (9 / 10) / 1"
  by code_simp+

lemma lopsided_enriched:
  "map value_usd (enrich_with_prices no_oracle (valid_balances lopsided_balances)) =
     [fl (9 / 10), fl (1 / 10)]"
  "map price_usd (enrich_with_prices no_oracle (valid_balances lopsided_balances)) =
     [Some 1, Some 1]"
proof -
  have v: "valid_balances lopsided_balances = lopsided_balances"
    by (simp add: lopsided_balances_def valid_balances_def rec_simps)
  show "map value_usd (enrich_with_prices no_oracle (valid_balances lopsided_balances)) =
     [fl (9 / 10), fl (1 / 10)]"
    "map price_usd (enrich_with_prices no_oracle (valid_balances lopsided_balances)) =
     [Some 1, Some 1]"
    unfolding v unfolding lopsided_balances_def enrich_with_prices_def
    using lopsided_numerals(5,6)
    by (simp_all add: price_simps rec_simps lopsided_numerals(3,4))
qed

theorem warnings_in_fixed_order_witness:
  "generate_warnings (enrich_with_prices no_oracle (valid_balances example_balances)) 6050 =
     [[0x2139, 0xFE0F] @ ascii '' 2 token(s) missing price data - using fallback estimates'',
      [0x26A0, 0xFE0F] @ ascii '' Portfolio highly concentrated in single asset''] \<and>
   (\<exists>s. aggregate_portfolio no_oracle (ascii ''w'') example_balances = Inr s \<and>
      warnings s =
        [[0x2139, 0xFE0F] @ ascii '' 2 token(s) missing price data - using fallback estimates'',
         [0x26A0, 0xFE0F] @ ascii '' Portfolio highly concentrated in single asset'']) \<and>
   generate_warnings [] 0 = [[0x2139, 0xFE0F] @ ascii '' Portfolio value below $1 USD''] \<and>
   py_sum (map value_usd (enrich_with_prices no_oracle (valid_balances lopsided_balances))) = 1 \<and>
   generate_warnings (enrich_with_prices no_oracle (valid_balances lopsided_balances)) 1 = [] \<and>
   (9 / 10 :: rat) < fl (9 / 10) / 1"
proof -
  define es where "es = enrich_with_prices no_oracle (valid_balances example_balances)"
  define ls where "ls = enrich_with_prices no_oracle (valid_balances lopsided_balances)"
  have v: "map value_usd es = [0, 6000, 50, 0]"
    and p: "map price_usd es = [None, Some 3000, Some 1, None]"
    unfolding es_def by (rule example_enriched)+
  have cnt: "length (filter (\<lambda>e. price_usd e = None) es) = 2"
  proof -
    have "length (filter (\<lambda>e. price_usd e = None) es) =
        length (filter (\<lambda>x. x = None) (map price_usd es))"
      by (simp add: filter_map comp_def)
    then show ?thesis by (simp add: p)
  qed
  have ex: "\<exists>e\<in>set es. price_usd e = None"
    using cnt missing_price_exists [of "\<lambda>e. price_usd e = None" es] by simp
  have mx: "Max (set (map value_usd es)) = 6000" by (simp add: v)
  have ne: "es \<noteq> []" using v by auto
  have valid: "valid_balances example_balances \<noteq> []" by (simp add: example_valid)
  have w: "generate_warnings es 6050 =
     [[0x2139, 0xFE0F] @ ascii '' 2 token(s) missing price data - using fallback estimates'',
      [0x26A0, 0xFE0F] @ ascii '' Portfolio highly concentrated in single asset'']"
    using warnings_in_fixed_order [of es 6050] ex ne example_ratio(2)
    unfolding mx cnt
    by (simp add: info_sign_def warning_sign_def str_nat.simps ascii_def)
  obtain s where s: "aggregate_portfolio no_oracle (ascii ''w'') example_balances = Inr s"
    using aggregate_returns [OF example_ids] by blast
  have ws: "warnings s = generate_warnings es 6050"
    using warnings_in_fixed_order [of "[]" 0 no_oracle "ascii ''w''" example_balances] s valid
    unfolding es_def [symmetric] v example_ratio(1) by blast
  have w0: "generate_warnings [] 0 = [[0x2139, 0xFE0F] @ ascii '' Portfolio value below $1 USD'']"
    using warnings_in_fixed_order [of "[]" 0] by (simp add: info_sign_def)
  have lv: "map value_usd ls = [fl (9 / 10), fl (1 / 10)]"
    and lp: "map price_usd ls = [Some 1, Some 1]"
    unfolding ls_def by (rule lopsided_enriched)+
  have lcnt: "\<not> (\<exists>e\<in>set ls. price_usd e = None)"
  proof -
    have "\<forall>x\<in>set (map price_usd ls). x \<noteq> None" unfolding lp by simp
    then show ?thesis by simp
  qed
  have lmx: "Max (set (map value_usd ls)) = fl (9 / 10)"
    unfolding lv by (simp add: lopsided_numerals)
  have lne: "ls \<noteq> []" using lv by auto
  have wl: "generate_warnings ls 1 = []"
    using warnings_in_fixed_order [of ls 1] lcnt lne lopsided_numerals(10)
    unfolding lmx by simp
  have tl: "py_sum (map value_usd ls) = 1"
    unfolding lv by (rule lopsided_numerals)
  show ?thesis
    using w s ws w0 wl tl lopsided_numerals(11)
    unfolding es_def [symmetric] ls_def [symmetric]
    by (intro conjI exI [of _ s]) simp_all
qed

subsection \<open>Group values: worked examples\<close>










subsection \<open>Sorting: worked example\<close>

theorem breakdowns_sorted_stable_witness:
  "\<exists>s. aggregate_portfolio no_oracle (ascii ''w'') example_balances = Inr s \<and>
       map cg_chain_id (breakdown_by_chain s) = [1, 137, 10, 8453] \<and>
       map cg_value_usd (breakdown_by_chain s) = [6000, 50, 0, 0] \<and>
       map tg_symbol (breakdown_by_token s) =
         [ascii ''ETH'', ascii ''USDC'', ascii ''XYZ'', ascii ''ABC''] \<and>
       map tg_value_usd (breakdown_by_token s) = [6000, 50, 0, 0] \<and>
       sorted_wrt (\<lambda>a b. cg_value_usd b \<le> cg_value_usd a) (breakdown_by_chain s) \<and>
       sorted_wrt (\<lambda>a b. tg_value_usd b \<le> tg_value_usd a) (breakdown_by_token s)"
proof -
  from breakdowns_sorted_stable [of example_balances no_oracle "ascii ''w''"] example_ids
  obtain s where s: "aggregate_portfolio no_oracle (ascii ''w'') example_balances = Inr s"
    and c: "sorted_wrt (\<lambda>a b. cg_value_usd b \<le> cg_value_usd a) (breakdown_by_chain s)"
    and t: "sorted_wrt (\<lambda>a b. tg_value_usd b \<le> tg_value_usd a) (breakdown_by_token s)"
    by blast
  from example_totals [OF s] s c t show ?thesis
    by (intro exI [of _ s]) simp
qed

subsection \<open>Enrichment of a zero balance\<close>

text \<open>
  Claim C2 at a record with balance zero. The price of ETH resolves to 3000 from the
  fallback table, yet the enriched record has no \<open>price_usd\<close>: the test
  \<open>price_usd is not None and balance.get("balance")\<close> sends a zero balance to the branch
  for a missing price, and the record is then counted by the missing-price warning.
\<close>

theorem zero_balance_loses_its_price:
  "get_token_price no_oracle (address_or_native (native_eth 0)) (chain_id (native_eth 0))
     (symbol (native_eth 0)) = Some 3000 \<and>
   balance (native_eth 0) = Some 0 \<and>
   price_usd (enrich_one no_oracle (native_eth 0)) = None \<and>
   value_usd (enrich_one no_oracle (native_eth 0)) = 0 \<and>
   generate_warnings (enrich_with_prices no_oracle [native_eth 0]) 0 =
     [msg_missing_price 1, msg_low_value]"
  by (simp add: price_simps rec_simps enrich_with_prices_def generate_warnings_def fl_zero)

end
